theory Spec2Isabelle
  imports Main "HOL-Library.Word"
begin

section \<open>Native type codes\<close>

text \<open>
  The constants of \<^verbatim>\<open>adsdb.py\<close>, lines 26-73. A type code travels in a C \<^verbatim>\<open>int\<close>
  field; the model keeps it as an \<open>int\<close>.
\<close>

definition A_INVALID_TYPE :: int where "A_INVALID_TYPE = 0"
definition A_BINARY :: int where "A_BINARY = 1"
definition A_STRING :: int where "A_STRING = 2"
definition A_DOUBLE :: int where "A_DOUBLE = 3"
definition A_VAL64 :: int where "A_VAL64 = 4"
definition A_UVAL64 :: int where "A_UVAL64 = 5"
definition A_VAL32 :: int where "A_VAL32 = 6"
definition A_UVAL32 :: int where "A_UVAL32 = 7"
definition A_VAL16 :: int where "A_VAL16 = 8"
definition A_UVAL16 :: int where "A_UVAL16 = 9"
definition A_VAL8 :: int where "A_VAL8 = 10"
definition A_UVAL8 :: int where "A_UVAL8 = 11"
definition A_NCHAR :: int where "A_NCHAR = 12"
definition A_DECIMAL :: int where "A_DECIMAL = 13"
definition A_DATE :: int where "A_DATE = 14"
definition A_TIME :: int where "A_TIME = 15"
definition A_TIMESTAMP :: int where "A_TIMESTAMP = 16"

definition DT_NOTYPE :: int where "DT_NOTYPE = 0"
definition DT_DATE :: int where "DT_DATE = 384"
definition DT_TIME :: int where "DT_TIME = 388"
definition DT_TIMESTAMP :: int where "DT_TIMESTAMP = 392"
definition DT_VARCHAR :: int where "DT_VARCHAR = 448"
definition DT_FIXCHAR :: int where "DT_FIXCHAR = 452"
definition DT_LONGVARCHAR :: int where "DT_LONGVARCHAR = 456"
definition DT_STRING :: int where "DT_STRING = 460"
definition DT_DOUBLE :: int where "DT_DOUBLE = 480"
definition DT_FLOAT :: int where "DT_FLOAT = 482"
definition DT_DECIMAL :: int where "DT_DECIMAL = 484"
definition DT_INT :: int where "DT_INT = 496"
definition DT_SMALLINT :: int where "DT_SMALLINT = 500"
definition DT_BINARY :: int where "DT_BINARY = 524"
definition DT_LONGBINARY :: int where "DT_LONGBINARY = 528"
definition DT_TINYINT :: int where "DT_TINYINT = 604"
definition DT_BIGINT :: int where "DT_BIGINT = 608"
definition DT_UNSINT :: int where "DT_UNSINT = 612"
definition DT_UNSSMALLINT :: int where "DT_UNSSMALLINT = 616"
definition DT_UNSBIGINT :: int where "DT_UNSBIGINT = 620"
definition DT_BIT :: int where "DT_BIT = 624"
definition DT_NSTRING :: int where "DT_NSTRING = 628"
definition DT_NFIXCHAR :: int where "DT_NFIXCHAR = 632"
definition DT_NVARCHAR :: int where "DT_NVARCHAR = 636"
definition DT_LONGNVARCHAR :: int where "DT_LONGNVARCHAR = 640"

definition DD_INVALID :: int where "DD_INVALID = 0"
definition DD_INPUT :: int where "DD_INPUT = 1"
definition DD_OUTPUT :: int where "DD_OUTPUT = 2"
definition DD_INPUT_OUTPUT :: int where "DD_INPUT_OUTPUT = 3"

section \<open>Type categories: the class DBAPISet\<close>

text \<open>
  \<^verbatim>\<open>DBAPISet\<close> (lines 116-128) is a \<^verbatim>\<open>frozenset\<close> whose \<^verbatim>\<open>__eq__\<close> compares member sets
  against another \<^verbatim>\<open>DBAPISet\<close> and tests membership against anything else. The members
  are native type codes. An operand of a comparison is a native code or a category.
\<close>

datatype operand = Native int | Category "int set"

definition DBAPISet_eq :: "int set \<Rightarrow> operand \<Rightarrow> bool" where
  "DBAPISet_eq self other =
     (case other of
        Category s \<Rightarrow> self = s
      | Native x \<Rightarrow> x \<in> self)"

definition DBAPISet_ne :: "int set \<Rightarrow> operand \<Rightarrow> bool" where
  "DBAPISet_ne self other = (\<not> DBAPISet_eq self other)"

text \<open>
  The operator \<^verbatim>\<open>a == b\<close> as the interpreter dispatches it: the left operand's
  \<^verbatim>\<open>__eq__\<close> first; an \<^verbatim>\<open>int\<close> on the left answers \<^verbatim>\<open>NotImplemented\<close> for a
  \<^verbatim>\<open>DBAPISet\<close>, so the right operand's \<^verbatim>\<open>__eq__\<close> is called with the operands swapped.
  \<^verbatim>\<open>a != b\<close> goes the same way through \<^verbatim>\<open>__ne__\<close>.
\<close>

fun py_eq :: "operand \<Rightarrow> operand \<Rightarrow> bool" where
  "py_eq (Category s) other = DBAPISet_eq s other"
| "py_eq (Native x) (Category s) = DBAPISet_eq s (Native x)"
| "py_eq (Native x) (Native y) = (x = y)"

fun py_ne :: "operand \<Rightarrow> operand \<Rightarrow> bool" where
  "py_ne (Category s) other = DBAPISet_ne s other"
| "py_ne (Native x) (Category s) = DBAPISet_ne s (Native x)"
| "py_ne (Native x) (Native y) = (x \<noteq> y)"

definition STRING :: "int set" where "STRING = {A_STRING, A_NCHAR}"
definition BINARY :: "int set" where "BINARY = {A_BINARY}"
definition NUMBER :: "int set" where
  "NUMBER = {A_DOUBLE, A_VAL64, A_UVAL64, A_VAL32, A_UVAL32, A_VAL16, A_UVAL16,
             A_VAL8, A_UVAL8, A_DECIMAL}"
definition DATE :: "int set" where "DATE = {A_DATE}"
definition TIME :: "int set" where "TIME = {A_TIME}"
definition TIMESTAMP :: "int set" where "TIMESTAMP = {A_TIMESTAMP}"
definition DATETIME :: "int set" where "DATETIME = TIMESTAMP"
definition ROWID :: "int set" where "ROWID = {}"

text \<open>The dictionary \<^verbatim>\<open>ToPyType\<close> (lines 149-172); a missing key raises \<^verbatim>\<open>KeyError\<close>.\<close>

definition ToPyType :: "(int \<times> int set) list" where
  "ToPyType =
    [(DT_DATE, DATE), (DT_TIME, TIME), (DT_TIMESTAMP, TIMESTAMP),
     (DT_VARCHAR, STRING), (DT_FIXCHAR, STRING), (DT_LONGVARCHAR, STRING),
     (DT_STRING, STRING), (DT_DOUBLE, NUMBER), (DT_FLOAT, NUMBER),
     (DT_DECIMAL, NUMBER), (DT_INT, NUMBER), (DT_SMALLINT, NUMBER),
     (DT_BINARY, BINARY), (DT_LONGBINARY, BINARY), (DT_TINYINT, NUMBER),
     (DT_BIGINT, NUMBER), (DT_UNSINT, NUMBER), (DT_UNSSMALLINT, NUMBER),
     (DT_UNSBIGINT, NUMBER), (DT_BIT, NUMBER), (DT_LONGNVARCHAR, STRING),
     (DT_NSTRING, STRING), (DT_NFIXCHAR, STRING), (DT_NVARCHAR, STRING)]"

section \<open>Errors and host values\<close>

text \<open>
  The exception classes of lines 175-211 and the built-in exceptions the interpreter
  raises inside the module. An operation that can raise returns \<open>error + 'a\<close>.
\<close>

datatype error =
    InterfaceError | InternalError | OperationalError | ProgrammingError
  | IntegrityError | DataError | NotSupportedError
  | TypeError | ValueError | IndexError | KeyError | AttributeError | NameError
  | UnboundLocalError | StructError | OverflowError | UnicodeError

text \<open>The subclasses of the module's \<^verbatim>\<open>Error\<close>.\<close>

fun is_dbapi_error :: "error \<Rightarrow> bool" where
  "is_dbapi_error InterfaceError = True"
| "is_dbapi_error InternalError = True"
| "is_dbapi_error OperationalError = True"
| "is_dbapi_error ProgrammingError = True"
| "is_dbapi_error IntegrityError = True"
| "is_dbapi_error DataError = True"
| "is_dbapi_error NotSupportedError = True"
| "is_dbapi_error _ = False"

text \<open>\<^verbatim>\<open>UnboundLocalError\<close> is a subclass of \<^verbatim>\<open>NameError\<close>.\<close>

fun is_NameError :: "error \<Rightarrow> bool" where
  "is_NameError NameError = True"
| "is_NameError UnboundLocalError = True"
| "is_NameError _ = False"

definition bind_err :: "error + 'a \<Rightarrow> ('a \<Rightarrow> error + 'b) \<Rightarrow> error + 'b" where
  "bind_err r f = (case r of Inl e \<Rightarrow> Inl e | Inr x \<Rightarrow> f x)"

type_synonym byte = "8 word"

text \<open>
  Host values. A \<^verbatim>\<open>float\<close> is kept as its IEEE-754 binary64 bit pattern, a \<^verbatim>\<open>str\<close> as
  a list of 8-bit characters. \<^verbatim>\<open>Binary\<close> (line 660) is a subclass of \<^verbatim>\<open>str\<close>.
\<close>

datatype py_value =
    PyNone
  | PyInt int
  | PyFloat "64 word"
  | PyStr string
  | PyBinary string
  | PyBytes "byte list"
  | PyDecimal string
  | PyDate int int int
  | PyTime int int int int

fun truthy :: "py_value \<Rightarrow> bool" where
  "truthy PyNone = False"
| "truthy (PyInt n) = (n \<noteq> 0)"
| "truthy (PyFloat w) = (w \<noteq> 0 \<and> w \<noteq> push_bit 63 1)"
| "truthy (PyStr s) = (s \<noteq> [])"
| "truthy (PyBinary s) = (s \<noteq> [])"
| "truthy (PyBytes bs) = (bs \<noteq> [])"
| "truthy _ = True"

text \<open>
  Operations of the interpreter and its standard library that the module calls and that
  are no part of the repository. Every theorem below holds for any such environment.
  \<^item> \<open>float_of_int\<close>: the conversion \<^verbatim>\<open>struct.pack('d', n)\<close> applies to an \<^verbatim>\<open>int\<close>;
  \<^item> \<open>truediv\<close>: the operator \<^verbatim>\<open>/\<close> on two \<^verbatim>\<open>int\<close>s, whose result is a \<^verbatim>\<open>float\<close>;
  \<^item> \<open>str_of\<close>: \<^verbatim>\<open>str(value)\<close>;
  \<^item> \<open>int_of\<close>: \<^verbatim>\<open>int(text)\<close>;
  \<^item> \<open>frac_micros\<close>: \<^verbatim>\<open>int(float('.' + text) * 1000000)\<close>;
  \<^item> \<open>Decimal\<close>: the constructor \<^verbatim>\<open>decimal.Decimal\<close>;
  \<^item> \<open>utf16_encode\<close>: \<^verbatim>\<open>text.encode('utf-16')\<close>.
\<close>

record interp =
  float_of_int :: "int \<Rightarrow> error + 64 word"
  truediv :: "int \<Rightarrow> int \<Rightarrow> 64 word"
  str_of :: "py_value \<Rightarrow> string"
  int_of :: "string \<Rightarrow> error + int"
  frac_micros :: "string \<Rightarrow> error + int"
  Decimal :: "py_value \<Rightarrow> error + py_value"
  utf16_encode :: "string \<Rightarrow> byte list"

text \<open>
  The parameter \<^verbatim>\<open>char_set\<close> names a codec; the model takes the codec's decoder, which
  is what both \<^verbatim>\<open>bytes.decode(char_set)\<close> and \<^verbatim>\<open>str(bytes, char_set)\<close> run.
\<close>

type_synonym charset = "byte list \<Rightarrow> error + string"

text \<open>Indexing a sequence with an \<^verbatim>\<open>int\<close>: a negative index counts from the end.\<close>

definition py_index :: "'a list \<Rightarrow> int \<Rightarrow> error + 'a" where
  "py_index xs i =
     (if 0 \<le> i \<and> i < int (length xs) then Inr (xs ! nat i)
      else if i < 0 \<and> - int (length xs) \<le> i then Inr (xs ! nat (int (length xs) + i))
      else Inl IndexError)"

section \<open>The struct module, one format character at a time\<close>

text \<open>
  Line 214: the format character of each type code. Native sizes and byte order; every
  platform the module loads its library on (lines 292-311) is little-endian.
\<close>

definition format :: string where
  "format = ''xxxdqQiIhHbBxxxx''"

fun le_bytes :: "nat \<Rightarrow> nat \<Rightarrow> byte list" where
  "le_bytes 0 x = []"
| "le_bytes (Suc n) x = of_nat (x mod 256) # le_bytes n (x div 256)"

fun le_nat :: "byte list \<Rightarrow> nat" where
  "le_nat [] = 0"
| "le_nat (b # bs) = unat b + 256 * le_nat bs"

text \<open>Byte width and signedness of the integer format characters.\<close>

definition int_format :: "char \<Rightarrow> (nat \<times> bool) option" where
  "int_format c =
     (if c = CHR ''q'' then Some (8, True)
      else if c = CHR ''Q'' then Some (8, False)
      else if c = CHR ''i'' then Some (4, True)
      else if c = CHR ''I'' then Some (4, False)
      else if c = CHR ''h'' then Some (2, True)
      else if c = CHR ''H'' then Some (2, False)
      else if c = CHR ''b'' then Some (1, True)
      else if c = CHR ''B'' then Some (1, False)
      else None)"

definition calcsize :: "char \<Rightarrow> error + nat" where
  "calcsize c =
     (if c = CHR ''x'' then Inr 1
      else if c = CHR ''d'' then Inr 8
      else (case int_format c of
              Some (w, sg) \<Rightarrow> Inr w
            | None \<Rightarrow> Inl StructError))"

definition pack_int :: "nat \<Rightarrow> bool \<Rightarrow> int \<Rightarrow> error + byte list" where
  "pack_int w sg v =
     (if sg then
        (if - (2 ^ (8 * w - 1)) \<le> v \<and> v < 2 ^ (8 * w - 1)
         then Inr (le_bytes w (nat (v mod 2 ^ (8 * w))))
         else Inl StructError)
      else
        (if 0 \<le> v \<and> v < 2 ^ (8 * w)
         then Inr (le_bytes w (nat v))
         else Inl StructError))"

definition unpack_int :: "nat \<Rightarrow> bool \<Rightarrow> byte list \<Rightarrow> int" where
  "unpack_int w sg bs =
     (if sg \<and> 2 ^ (8 * w - 1) \<le> le_nat bs
      then int (le_nat bs) - 2 ^ (8 * w)
      else int (le_nat bs))"

text \<open>
  \<^verbatim>\<open>pack(fmt, value)\<close> with one value: the pad format \<^verbatim>\<open>x\<close> takes no value, \<^verbatim>\<open>d\<close>
  takes a float or converts an int, the integer formats take an int in range.
\<close>

definition pack :: "interp \<Rightarrow> char \<Rightarrow> py_value \<Rightarrow> error + byte list" where
  "pack L c v =
     (if c = CHR ''x'' then Inl StructError
      else if c = CHR ''d'' then
        (case v of
           PyFloat w \<Rightarrow> Inr (le_bytes 8 (unat w))
         | PyInt n \<Rightarrow> bind_err (float_of_int L n) (\<lambda>w. Inr (le_bytes 8 (unat w)))
         | _ \<Rightarrow> Inl StructError)
      else (case int_format c of
              None \<Rightarrow> Inl StructError
            | Some (w, sg) \<Rightarrow>
                (case v of PyInt n \<Rightarrow> pack_int w sg n | _ \<Rightarrow> Inl StructError)))"

text \<open>\<^verbatim>\<open>unpack(fmt, bytes)\<close>: the tuple of values; the pad format yields the empty tuple.\<close>

definition unpack :: "char \<Rightarrow> byte list \<Rightarrow> error + py_value list" where
  "unpack c bs =
     bind_err (calcsize c) (\<lambda>n.
       if length bs \<noteq> n then Inl StructError
       else if c = CHR ''x'' then Inr []
       else if c = CHR ''d'' then Inr [PyFloat (of_nat (le_nat bs))]
       else (case int_format c of
               None \<Rightarrow> Inl StructError
             | Some (w, sg) \<Rightarrow> Inr [PyInt (unpack_int w sg bs)]))"

section \<open>Native records\<close>

text \<open>
  \<^verbatim>\<open>DataValue\<close> (lines 75-82). \<open>dv_buffer\<close> is the memory behind the \<^verbatim>\<open>char\<close> pointer,
  addressed from the pointer on; \<open>dv_length\<close> and \<open>dv_is_null\<close> are the values behind
  the two pointers, \<open>dv_type\<close> is the type tag. The field names carry a prefix because
  \<open>length\<close>, \<open>type\<close> and \<open>value\<close> are taken in Isabelle.
\<close>

record DataValue =
  dv_buffer :: "nat \<Rightarrow> byte"
  dv_buffer_size :: nat
  dv_length :: nat
  dv_type :: int
  dv_is_null :: int

record BindParam =
  bp_direction :: int
  bp_value :: DataValue
  bp_name :: "string option"

record ColumnInfo =
  ci_name :: string
  ci_type :: int
  ci_native_type :: int
  ci_precision :: int
  ci_scale :: int
  ci_max_size :: int
  ci_nullable :: int

text \<open>The slice \<^verbatim>\<open>pointer[:n]\<close> reads \<open>n\<close> bytes of memory, whatever they are.\<close>

definition ptr_slice :: "(nat \<Rightarrow> byte) \<Rightarrow> nat \<Rightarrow> byte list" where
  "ptr_slice p n = map p [0..<n]"

section \<open>The module's global names\<close>

text \<open>
  The names the converters look up at run time are bound by the import statements of
  lines 9-18, executed in order. Line 12 binds \<^verbatim>\<open>datetime\<close> to the module and line 18
  binds the same name again, to the class \<^verbatim>\<open>datetime.datetime\<close>. Of the objects
  involved, the model keeps the module, its three classes, and the methods \<^verbatim>\<open>date\<close>
  and \<^verbatim>\<open>time\<close> of the class \<^verbatim>\<open>datetime\<close>, which are method descriptors and not classes.
\<close>

datatype py_object =
    Module_datetime | Class_datetime | Class_date | Class_time
  | Method_descriptor string

fun getattr :: "py_object \<Rightarrow> string \<Rightarrow> error + py_object" where
  "getattr Module_datetime a =
     (if a = ''datetime'' then Inr Class_datetime
      else if a = ''date'' then Inr Class_date
      else if a = ''time'' then Inr Class_time
      else Inl AttributeError)"
| "getattr Class_datetime a =
     (if a = ''date'' \<or> a = ''time'' then Inr (Method_descriptor a)
      else Inl AttributeError)"
| "getattr ob a = Inl AttributeError"

datatype import_stmt = Import string | From_import string string

fun exec_import :: "(string \<rightharpoonup> py_object) \<Rightarrow> import_stmt \<Rightarrow> (string \<rightharpoonup> py_object)" where
  "exec_import g (Import m) =
     (if m = ''datetime'' then g(m \<mapsto> Module_datetime) else g)"
| "exec_import g (From_import m a) =
     (if m = ''datetime'' then
        (case getattr Module_datetime a of
           Inr ob \<Rightarrow> g(a \<mapsto> ob)
         | Inl e \<Rightarrow> g)
      else g)"

definition module_imports :: "import_stmt list" where
  "module_imports =
     [Import ''os'', Import ''sys'', Import ''time'', Import ''datetime'',
      Import ''codecs'', Import ''platform'', From_import ''ctypes'' ''*'',
      From_import ''struct'' ''pack'', From_import ''struct'' ''unpack'',
      From_import ''struct'' ''calcsize'', From_import ''decimal'' ''*'',
      From_import ''datetime'' ''datetime'']"

definition module_globals :: "string \<rightharpoonup> py_object" where
  "module_globals = foldl exec_import Map.empty module_imports"

text \<open>Reading a global name in a namespace \<open>g\<close>; the module runs with \<open>module_globals\<close>.\<close>

definition global_name :: "(string \<rightharpoonup> py_object) \<Rightarrow> string \<Rightarrow> error + py_object" where
  "global_name g n = (case g n of None \<Rightarrow> Inl NameError | Some ob \<Rightarrow> Inr ob)"

text \<open>
  \<^verbatim>\<open>isinstance(v, cls)\<close> raises \<^verbatim>\<open>TypeError\<close> when \<^verbatim>\<open>cls\<close> is not a class. Calling a
  class constructs a value after range checks; calling a method descriptor needs an
  instance of \<^verbatim>\<open>datetime\<close> as its first argument, which no value of the model is.
\<close>

fun isinstance :: "py_value \<Rightarrow> py_object \<Rightarrow> error + bool" where
  "isinstance v Class_date = Inr (case v of PyDate y m d \<Rightarrow> True | _ \<Rightarrow> False)"
| "isinstance v Class_time = Inr (case v of PyTime h m s u \<Rightarrow> True | _ \<Rightarrow> False)"
| "isinstance v Class_datetime = Inr False"
| "isinstance v ob = Inl TypeError"

definition days_in_month :: "int \<Rightarrow> int \<Rightarrow> int" where
  "days_in_month y m =
     (if m = 2 then (if y mod 4 = 0 \<and> (y mod 400 = 0 \<or> y mod 100 \<noteq> 0) then 29 else 28)
      else if m = 4 \<or> m = 6 \<or> m = 9 \<or> m = 11 then 30
      else 31)"

fun py_call :: "py_object \<Rightarrow> int list \<Rightarrow> error + py_value" where
  "py_call Class_time [h, m, s, u] =
     (if 0 \<le> h \<and> h < 24 \<and> 0 \<le> m \<and> m < 60 \<and> 0 \<le> s \<and> s < 60 \<and> 0 \<le> u \<and> u < 1000000
      then Inr (PyTime h m s u) else Inl ValueError)"
| "py_call Class_date [y, m, d] =
     (if 1 \<le> y \<and> y \<le> 9999 \<and> 1 \<le> m \<and> m \<le> 12 \<and> 1 \<le> d \<and> d \<le> days_in_month y m
      then Inr (PyDate y m d) else Inl ValueError)"
| "py_call ob args = Inl TypeError"

section \<open>Splitting text\<close>

text \<open>
  \<^verbatim>\<open>s.split()\<close> cuts at runs of white space and drops empty pieces;
  \<^verbatim>\<open>s.split(sep)\<close> cuts at every separator and keeps empty pieces.
\<close>

definition is_space :: "char \<Rightarrow> bool" where
  "is_space c = (of_char c \<in> {9, 10, 11, 12, 13, 28, 29, 30, 31, 32, 133, 160 :: nat})"

fun split_on :: "char \<Rightarrow> string \<Rightarrow> string list" where
  "split_on sep [] = [[]]"
| "split_on sep (c # cs) =
     (if c = sep then [] # split_on sep cs
      else (case split_on sep cs of
              [] \<Rightarrow> [[c]]
            | w # ws \<Rightarrow> (c # w) # ws))"

fun split_ws_acc :: "string \<Rightarrow> string \<Rightarrow> string list" where
  "split_ws_acc w [] = (if w = [] then [] else [rev w])"
| "split_ws_acc w (c # cs) =
     (if is_space c then (if w = [] then split_ws_acc [] cs else rev w # split_ws_acc [] cs)
      else split_ws_acc (c # w) cs)"

definition split_ws :: "string \<Rightarrow> string list" where
  "split_ws s = split_ws_acc [] s"

section \<open>The converters for dates and times\<close>

text \<open>\<^verbatim>\<open>ads_typecast_timestamp\<close> (lines 663-689) returns its argument in its first statement.\<close>

definition ads_typecast_timestamp :: "py_value \<Rightarrow> error + py_value" where
  "ads_typecast_timestamp s = Inr s"

text \<open>
  \<^verbatim>\<open>ads_typecast_date\<close> (lines 691-698). Only \<^verbatim>\<open>str\<close> splits at a \<^verbatim>\<open>str\<close> separator:
  \<^verbatim>\<open>bytes.split('/')\<close> raises \<^verbatim>\<open>TypeError\<close> and other values have no \<^verbatim>\<open>split\<close>.
\<close>

definition ads_typecast_date :: "(string \<rightharpoonup> py_object) \<Rightarrow> interp \<Rightarrow> py_value \<Rightarrow> error + py_value" where
  "ads_typecast_date g L s =
     (if \<not> truthy s then Inr PyNone
      else
        bind_err (global_name g ''datetime'') (\<lambda>dt.
        bind_err (getattr dt ''date'') (\<lambda>cls.
        bind_err (isinstance s cls) (\<lambda>inst.
          if inst then Inr s
          else (case s of
                  PyStr txt \<Rightarrow>
                    (case split_on CHR ''/'' txt of
                       [m, d, y] \<Rightarrow>
                         bind_err (global_name g ''datetime'') (\<lambda>dt2.
                         bind_err (getattr dt2 ''date'') (\<lambda>ctor.
                         bind_err (int_of L y) (\<lambda>iy.
                         bind_err (int_of L m) (\<lambda>im.
                         bind_err (int_of L d) (\<lambda>idd.
                           py_call ctor [iy, im, idd])))))
                     | _ \<Rightarrow> Inl ValueError)
                | PyBytes bs \<Rightarrow> Inl TypeError
                | _ \<Rightarrow> Inl AttributeError)))))"

text \<open>
  \<^verbatim>\<open>ads_typecast_time\<close> (lines 700-720): the emptiness test, the \<^verbatim>\<open>isinstance\<close> test
  against \<^verbatim>\<open>datetime.time\<close>, then the parse. \<^verbatim>\<open>bytes.split()\<close> works without an
  argument, so a \<^verbatim>\<open>bytes\<close> value fails one statement later than in the date converter.
\<close>

definition parse_time :: "(string \<rightharpoonup> py_object) \<Rightarrow> interp \<Rightarrow> string \<Rightarrow> error + py_value" where
  "parse_time g L txt =
     (case split_ws txt of
        [t, ampm] \<Rightarrow>
          (case split_on CHR '':'' t of
             [hour, minutes, seconds] \<Rightarrow>
               bind_err (int_of L hour) (\<lambda>iHour0.
               let iHour1 = (if iHour0 = 12 then 0 else iHour0);
                   iHour = (if ampm = ''PM'' then iHour1 + 12 else iHour1)
               in
               bind_err
                 (if CHR ''.'' \<in> set seconds then
                    (case split_on CHR ''.'' seconds of
                       [sec, micro] \<Rightarrow> Inr (sec, micro)
                     | _ \<Rightarrow> Inl ValueError)
                  else Inr (seconds, ''0'')) (\<lambda>(sec, micro).
               bind_err (global_name g ''datetime'') (\<lambda>dt.
               bind_err (getattr dt ''time'') (\<lambda>ctor.
               bind_err (int_of L minutes) (\<lambda>im.
               bind_err (int_of L sec) (\<lambda>isec.
               bind_err (frac_micros L micro) (\<lambda>ius.
                 py_call ctor [iHour, im, isec, ius])))))))
           | _ \<Rightarrow> Inl ValueError)
      | _ \<Rightarrow> Inl ValueError)"

definition ads_typecast_time :: "(string \<rightharpoonup> py_object) \<Rightarrow> interp \<Rightarrow> py_value \<Rightarrow> error + py_value" where
  "ads_typecast_time g L s =
     (if \<not> truthy s then Inr PyNone
      else
        bind_err (global_name g ''datetime'') (\<lambda>dt.
        bind_err (getattr dt ''time'') (\<lambda>cls.
        bind_err (isinstance s cls) (\<lambda>inst.
          if inst then Inr s
          else (case s of
                  PyStr txt \<Rightarrow> parse_time g L txt
                | PyBytes bs \<Rightarrow>
                    (case split_ws (map (\<lambda>b. char_of (unat b)) bs) of
                       [t, ampm] \<Rightarrow> Inl TypeError
                     | _ \<Rightarrow> Inl ValueError)
                | _ \<Rightarrow> Inl AttributeError)))))"

section \<open>Decoding: mk\_valueof\<close>

text \<open>
  \<^verbatim>\<open>mk_valueof(raw, char_set)\<close> (lines 216-244) returns the closure \<^verbatim>\<open>valueof\<close>; the
  model passes the two captured parameters along. The branches are in source order.
  In the branch for \<open>A_NCHAR\<close> the test \<^verbatim>\<open>isinstance(data, str)\<close> is false, \<^verbatim>\<open>data\<close>
  being a \<^verbatim>\<open>DataValue\<close>. The last branch indexes \<open>format\<close> with the type tag, unpacks
  \<^verbatim>\<open>calcsize(fmt)\<close> bytes and takes element 0 of the resulting tuple.
\<close>

definition valueof :: "interp \<Rightarrow> int list \<Rightarrow> charset \<Rightarrow> DataValue \<Rightarrow> error + py_value" where
  "valueof L raw char_set data =
     (if dv_is_null data \<noteq> 0 then Inr PyNone
      else if dv_type data \<in> set raw then
        Inr (PyBytes (ptr_slice (dv_buffer data) (dv_length data)))
      else if dv_type data = A_STRING then
        bind_err (char_set (ptr_slice (dv_buffer data) (dv_length data))) (\<lambda>txt. Inr (PyStr txt))
      else if dv_type data = A_NCHAR then
        bind_err (char_set (ptr_slice (dv_buffer data) (dv_length data))) (\<lambda>txt. Inr (PyStr txt))
      else if dv_type data = A_DECIMAL then
        Decimal L (PyBytes (ptr_slice (dv_buffer data) (dv_length data)))
      else if dv_type data = A_DATE then
        ads_typecast_date module_globals L (PyBytes (ptr_slice (dv_buffer data) (dv_length data)))
      else if dv_type data = A_TIME then
        ads_typecast_time module_globals L (PyBytes (ptr_slice (dv_buffer data) (dv_length data)))
      else if dv_type data = A_TIMESTAMP then
        ads_typecast_timestamp (PyBytes (ptr_slice (dv_buffer data) (dv_length data)))
      else
        bind_err (py_index format (dv_type data)) (\<lambda>fmt.
        bind_err (calcsize fmt) (\<lambda>n.
        bind_err (unpack fmt (ptr_slice (dv_buffer data) n)) (\<lambda>vals.
          py_index vals 0))))"

text \<open>Line 391: the connection's decoder treats binary and single-byte strings as raw.\<close>

definition connection_raw :: "int list" where
  "connection_raw = [A_BINARY, A_STRING]"

section \<open>Encoding: mk\_assign\<close>

text \<open>
  \<^verbatim>\<open>create_string_buffer(init)\<close> of \<^verbatim>\<open>ctypes\<close>: a \<^verbatim>\<open>bytes\<close> value gives a zero-terminated
  copy, an \<^verbatim>\<open>int\<close> a zeroed array of that size, anything else (a \<^verbatim>\<open>str\<close> too) raises
  \<^verbatim>\<open>TypeError\<close>. The result is the memory that the cast pointer addresses.
\<close>

definition create_string_buffer :: "py_value \<Rightarrow> error + (nat \<Rightarrow> byte)" where
  "create_string_buffer init =
     (case init of
        PyBytes bs \<Rightarrow> Inr (\<lambda>i. if i < length bs then bs ! i else 0)
      | PyInt n \<Rightarrow> (if 0 \<le> n then Inr (\<lambda>i. 0) else Inl ValueError)
      | _ \<Rightarrow> Inl TypeError)"

fun is_str :: "py_value \<Rightarrow> bool" where
  "is_str (PyStr s) = True"
| "is_str (PyBinary s) = True"
| "is_str v = False"

fun is_int :: "py_value \<Rightarrow> bool" where
  "is_int (PyInt n) = True"
| "is_int v = False"

fun is_float :: "py_value \<Rightarrow> bool" where
  "is_float (PyFloat w) = True"
| "is_float v = False"

fun is_Binary :: "py_value \<Rightarrow> bool" where
  "is_Binary (PyBinary s) = True"
| "is_Binary v = False"

fun str_text :: "py_value \<Rightarrow> string" where
  "str_text (PyStr s) = s"
| "str_text (PyBinary s) = s"
| "str_text v = []"

text \<open>
  \<^verbatim>\<open>mk_assign(char_set)\<close> (lines 247-283) returns the closure \<^verbatim>\<open>assign\<close>, which never
  reads \<^verbatim>\<open>char_set\<close>. The statements are in source order; the test
  \<^verbatim>\<open>isinstance(value, str)\<close> stands twice in the source (lines 264 and 266) and twice
  here. The triple is the state of \<^verbatim>\<open>param.value.type\<close>, \<^verbatim>\<open>value\<close> and \<^verbatim>\<open>size\<close> after
  the three-way branch; \<^verbatim>\<open>length\<close> is assigned together with \<^verbatim>\<open>size\<close>.
\<close>

definition assign :: "interp \<Rightarrow> charset \<Rightarrow> BindParam \<Rightarrow> py_value \<Rightarrow> error + BindParam" where
  "assign L char_set param value0 =
     (let is_null = (value0 = PyNone);
          value1 = (if is_null \<and> bp_direction param = DD_INPUT then PyInt 0 else value0);
          type1 =
            (if dv_type (bp_value param) = A_INVALID_TYPE then
               (if is_int value1 then A_VAL32
                else if is_float value1 then A_DOUBLE
                else if is_Binary value1 then A_BINARY
                else A_STRING)
             else dv_type (bp_value param))
      in
      bind_err (py_index format type1) (\<lambda>fmt.
        if fmt = CHR ''x'' then
          (let (type2, value2, len) =
                 (if is_str value1 then
                    (type1, value1, length (str_text value1))
                  else if is_str value1 then
                    (A_NCHAR, PyBytes (utf16_encode L (str_text value1)),
                     length (utf16_encode L (str_text value1)) + 2)
                  else
                    (type1, PyStr (str_of L value1), length (str_of L value1)));
               size =
                 (if bp_direction param \<noteq> DD_INPUT \<and> len < dv_buffer_size (bp_value param)
                  then dv_buffer_size (bp_value param) else len)
           in
           bind_err (create_string_buffer value2) (\<lambda>buffer.
             Inr (param\<lparr>bp_value :=
               \<lparr>dv_buffer = buffer, dv_buffer_size = size, dv_length = len,
                dv_type = type2, dv_is_null = (if is_null then 1 else 0)\<rparr>\<rparr>)))
        else
          bind_err (pack L fmt value1) (\<lambda>packed.
          bind_err (create_string_buffer (PyBytes packed)) (\<lambda>buffer.
          bind_err (calcsize fmt) (\<lambda>n.
            Inr (param\<lparr>bp_value :=
              \<lparr>dv_buffer = buffer, dv_buffer_size = n, dv_length = n,
               dv_type = type1, dv_is_null = (if is_null then 1 else 0)\<rparr>\<rparr>))))))"

section \<open>The cursor\<close>

text \<open>
  The private attribute \<^verbatim>\<open>__stmt\<close> is \<^verbatim>\<open>None\<close>, a null handle (what a failed
  \<^verbatim>\<open>ads_prepare\<close> returns, false as a condition) or a live handle. \<open>parent\<close> is
  \<open>None\<close> for a closed cursor, else whether the connection's handle is open.
  A column description is the 8-tuple of lines 543-550.
\<close>

datatype stmt_handle = No_stmt | Null_stmt | Live_stmt

record descriptor =
  d_name :: string
  d_type_code :: "int set"
  d_display_size :: "int option"
  d_internal_size :: int
  d_precision :: int
  d_scale :: int
  d_null_ok :: int
  d_native_type :: int

record Cursor =
  parent :: "bool option"
  arraysize :: int
  converter :: "int list option"
  rowcount :: int
  stmt :: stmt_handle
  description :: "descriptor list option"

text \<open>Lines 476-485: a new cursor on an open connection.\<close>

definition new_cursor :: Cursor where
  "new_cursor =
     \<lparr>parent = Some True, arraysize = 1, converter = None, rowcount = - 1,
      stmt = No_stmt, description = None\<rparr>"

text \<open>\<^verbatim>\<open>Cursor.con\<close> (lines 502-505) and \<^verbatim>\<open>Connection.con\<close> (lines 411-414).\<close>

definition con :: "Cursor \<Rightarrow> error + unit" where
  "con c =
     (case parent c of
        None \<Rightarrow> Inl InterfaceError
      | Some opened \<Rightarrow> (if opened then Inr () else Inl InterfaceError))"

text \<open>
  \<^verbatim>\<open>self.parent.error()\<close> (lines 431-437), the exception that is then raised; \<open>rc\<close> is
  what \<^verbatim>\<open>ads_error\<close> returns. On a closed cursor the attribute lookup on \<^verbatim>\<open>None\<close>
  fails instead.
\<close>

definition parent_error :: "Cursor \<Rightarrow> int \<Rightarrow> error" where
  "parent_error c rc =
     (case parent c of
        None \<Rightarrow> AttributeError
      | Some opened \<Rightarrow>
          (if \<not> opened then InterfaceError
           else if rc \<in> {- 193, - 194, - 195, - 196} then IntegrityError
           else OperationalError))"

text \<open>The property \<^verbatim>\<open>stmt\<close> (lines 487-492), also behind \<^verbatim>\<open>get_stmt\<close>.\<close>

definition get_stmt :: "Cursor \<Rightarrow> int \<Rightarrow> error + unit" where
  "get_stmt c rc =
     (case stmt c of
        No_stmt \<Rightarrow> Inl InterfaceError
      | Null_stmt \<Rightarrow> Inl (parent_error c rc)
      | Live_stmt \<Rightarrow> Inr ())"

definition free_statement :: "Cursor \<Rightarrow> Cursor" where
  "free_statement c =
     (if stmt c = Live_stmt
      then c\<lparr>stmt := No_stmt, description := None, converter := None, rowcount := - 1\<rparr>
      else c)"

fun map_err :: "('a \<Rightarrow> error + 'b) \<Rightarrow> 'a list \<Rightarrow> error + 'b list" where
  "map_err f [] = Inr []"
| "map_err f (x # xs) =
     bind_err (f x) (\<lambda>y. bind_err (map_err f xs) (\<lambda>ys. Inr (y # ys)))"

subsection \<open>Column descriptions\<close>

text \<open>
  Assigning to an integer field of a \<^verbatim>\<open>ctypes\<close> structure: an \<^verbatim>\<open>int\<close> is stored
  truncated to the field's width, any other value (a \<^verbatim>\<open>float\<close> too) raises \<^verbatim>\<open>TypeError\<close>.
\<close>

definition set_int_field :: "nat \<Rightarrow> py_value \<Rightarrow> error + int" where
  "set_int_field w v =
     (case v of
        PyInt n \<Rightarrow> Inr ((n + 2 ^ (w - 1)) mod 2 ^ w - 2 ^ (w - 1))
      | _ \<Rightarrow> Inl TypeError)"

definition wide_types :: "int list" where
  "wide_types = [DT_NSTRING, DT_NFIXCHAR, DT_NVARCHAR, DT_LONGNVARCHAR]"

definition ToPyType_lookup :: "int \<Rightarrow> error + int set" where
  "ToPyType_lookup k = (case map_of ToPyType k of None \<Rightarrow> Inl KeyError | Some s \<Rightarrow> Inr s)"

text \<open>
  One round of the loop of \<^verbatim>\<open>Cursor.columns\<close> (lines 534-551) on the metadata the
  native layer wrote into \<^verbatim>\<open>info\<close>. Lines 541-542 divide with \<^verbatim>\<open>/\<close>, whose result is
  a \<^verbatim>\<open>float\<close>, and assign the quotient to the fields \<^verbatim>\<open>precision\<close> (a C short) and
  \<^verbatim>\<open>max_size\<close> (a C int).
\<close>

definition column :: "interp \<Rightarrow> ColumnInfo \<Rightarrow> error + (descriptor \<times> int)" where
  "column L info =
     bind_err
       (if ci_native_type info \<in> set wide_types then
          bind_err (set_int_field 16 (PyFloat (truediv L (ci_precision info) 2))) (\<lambda>p.
          bind_err (set_int_field 32 (PyFloat (truediv L (ci_max_size info) 2))) (\<lambda>m.
            Inr (info\<lparr>ci_precision := p, ci_max_size := m\<rparr>)))
        else Inr info) (\<lambda>info'.
     bind_err (ToPyType_lookup (ci_native_type info')) (\<lambda>cat.
       Inr (\<lparr>d_name = ci_name info', d_type_code = cat, d_display_size = None,
             d_internal_size = ci_max_size info', d_precision = ci_precision info',
             d_scale = ci_scale info', d_null_ok = ci_nullable info',
             d_native_type = ci_native_type info'\<rparr>,
            ci_native_type info')))"

text \<open>The generator \<^verbatim>\<open>columns()\<close> run to its end; \<open>infos\<close> is the native metadata.\<close>

definition columns :: "interp \<Rightarrow> Cursor \<Rightarrow> int \<Rightarrow> ColumnInfo list \<Rightarrow> error + (descriptor \<times> int) list" where
  "columns L c rc infos = bind_err (get_stmt c rc) (\<lambda>u. map_err (column L) infos)"

subsection \<open>executemany\<close>

text \<open>
  What the native layer answers during one round of the loop of lines 566-586: the
  parameter descriptions (\<^verbatim>\<open>ads_describe_bind_param\<close>), whether \<^verbatim>\<open>ads_execute\<close>
  succeeds, the column metadata, and the two row counts.
\<close>

record native_exec =
  nx_describe :: "nat \<Rightarrow> BindParam"
  nx_execute :: bool
  nx_columns :: "ColumnInfo list"
  nx_num_rows :: int
  nx_affected_rows :: int

text \<open>The slice \<^verbatim>\<open>parameters[:n]\<close>; a negative bound counts from the end.\<close>

definition py_take :: "int \<Rightarrow> 'a list \<Rightarrow> 'a list" where
  "py_take n xs = (if 0 \<le> n then take (nat n) xs else take (length xs - nat (- n)) xs)"

text \<open>
  The comprehension of lines 567-568 over the local function \<^verbatim>\<open>bind\<close> (lines 555-560):
  parameter \<open>k\<close> is described, assigned and bound, for the values in order.
\<close>

fun bind_all :: "interp \<Rightarrow> charset \<Rightarrow> (nat \<Rightarrow> BindParam) \<Rightarrow> nat \<Rightarrow> py_value list \<Rightarrow> error + BindParam list" where
  "bind_all L cs describe k [] = Inr []"
| "bind_all L cs describe k (col # cols) =
     bind_err (assign L cs (describe k) col) (\<lambda>param.
     bind_err (bind_all L cs describe (Suc k) cols) (\<lambda>params. Inr (param # params)))"

text \<open>Lines 582-586: how one reported count changes \<^verbatim>\<open>self.rowcount\<close>.\<close>

definition add_rowcount :: "int \<Rightarrow> int \<Rightarrow> int" where
  "add_rowcount current reported =
     (if reported < 0 then - 1
      else if current \<ge> 0 then current + reported
      else current)"

text \<open>
  One round of the loop. Unpacking \<^verbatim>\<open>zip(*self.columns())\<close> into two names raises
  \<^verbatim>\<open>ValueError\<close> exactly when there is no column, and the handler of line 577 then
  reads the affected-row count; any other exception leaves the loop.
\<close>

definition execute_one ::
  "interp \<Rightarrow> charset \<Rightarrow> int \<Rightarrow> int \<Rightarrow> Cursor \<Rightarrow> py_value list \<times> native_exec \<Rightarrow> error + (Cursor \<times> BindParam list)" where
  "execute_one L cs rc bind_count c x =
     bind_err (bind_all L cs (nx_describe (snd x)) 0 (py_take bind_count (fst x))) (\<lambda>parms.
       if \<not> nx_execute (snd x) then Inl (parent_error c rc)
       else
         bind_err (columns L c rc (nx_columns (snd x))) (\<lambda>cols.
           if cols = [] then
             Inr (c\<lparr>description := None, converter := None,
                    rowcount := add_rowcount (rowcount c) (nx_affected_rows (snd x))\<rparr>, parms)
           else
             Inr (c\<lparr>description := Some (map fst cols), converter := Some (map snd cols),
                    rowcount := add_rowcount (rowcount c) (nx_num_rows (snd x))\<rparr>, parms)))"

text \<open>
  The loop; \<open>parms\<close> is the local variable of that name, \<open>None\<close> while it is unbound.
  An exception leaves the cursor as the last completed round left it.
\<close>

fun exec_loop ::
  "interp \<Rightarrow> charset \<Rightarrow> int \<Rightarrow> int \<Rightarrow> Cursor \<Rightarrow> BindParam list option \<Rightarrow>
   (py_value list \<times> native_exec) list \<Rightarrow> Cursor \<times> (error + BindParam list option)" where
  "exec_loop L cs rc bind_count c parms [] = (c, Inr parms)"
| "exec_loop L cs rc bind_count c parms (x # xs) =
     (case execute_one L cs rc bind_count c x of
        Inl e \<Rightarrow> (c, Inl e)
      | Inr (c', parms') \<Rightarrow> exec_loop L cs rc bind_count c' (Some parms') xs)"

text \<open>
  \<^verbatim>\<open>Cursor.executemany\<close> (lines 553-591). \<open>prepared\<close> says whether \<^verbatim>\<open>ads_prepare\<close>
  returns a live handle, \<open>bind_count\<close> is the answer of \<^verbatim>\<open>ads_num_params\<close>. The
  result is the cursor afterwards and what the call returns or raises. The handler of
  lines 587-589 covers the \<^verbatim>\<open>try\<close> block only; the \<^verbatim>\<open>return\<close> of line 591 stands
  after it and reads the local variable \<^verbatim>\<open>parms\<close>.
\<close>

definition executemany ::
  "interp \<Rightarrow> charset \<Rightarrow> Cursor \<Rightarrow> bool \<Rightarrow> int \<Rightarrow> int \<Rightarrow>
   (py_value list \<times> native_exec) list \<Rightarrow> Cursor \<times> (error + py_value list)" where
  "executemany L cs c prepared bind_count rc seq_of_parameters =
     (let c0 = free_statement c in
      case con c0 of
        Inl e \<Rightarrow> (c0\<lparr>rowcount := - 1\<rparr>, Inl e)
      | Inr u \<Rightarrow>
          (let c1 = c0\<lparr>stmt := (if prepared then Live_stmt else Null_stmt)\<rparr> in
           case get_stmt c1 rc of
             Inl e \<Rightarrow> (c1\<lparr>rowcount := - 1\<rparr>, Inl e)
           | Inr u \<Rightarrow>
               (case exec_loop L cs rc bind_count (c1\<lparr>rowcount := 0\<rparr>) None seq_of_parameters of
                  (c2, Inl e) \<Rightarrow> (c2\<lparr>rowcount := - 1\<rparr>, Inl e)
                | (c2, Inr None) \<Rightarrow> (c2, Inl UnboundLocalError)
                | (c2, Inr (Some parms)) \<Rightarrow>
                    (c2, map_err (\<lambda>param. valueof L connection_raw cs (bp_value param)) parms))))"

subsection \<open>Fetching rows\<close>








section \<open>Vocabulary of the properties\<close>

text \<open>
  A parameter as \<^verbatim>\<open>ads_describe_bind_param\<close> leaves it before \<^verbatim>\<open>assign\<close> runs: a
  direction, a type tag and no buffer yet.
\<close>

definition described :: "int \<Rightarrow> int \<Rightarrow> BindParam" where
  "described direction tag =
     \<lparr>bp_direction = direction,
      bp_value = \<lparr>dv_buffer = (\<lambda>i. 0), dv_buffer_size = 0, dv_length = 0,
                  dv_type = tag, dv_is_null = 0\<rparr>,
      bp_name = None\<rparr>"

text \<open>
  The values a fixed-width numeric tag can hold: the integers of its width and
  signedness, and for \<open>A_DOUBLE\<close> every double.
\<close>

definition representable :: "int \<Rightarrow> py_value \<Rightarrow> bool" where
  "representable tag v =
     (case v of
        PyInt n \<Rightarrow>
          (tag = A_VAL64 \<and> - (2 ^ 63) \<le> n \<and> n < 2 ^ 63)
          \<or> (tag = A_UVAL64 \<and> 0 \<le> n \<and> n < 2 ^ 64)
          \<or> (tag = A_VAL32 \<and> - (2 ^ 31) \<le> n \<and> n < 2 ^ 31)
          \<or> (tag = A_UVAL32 \<and> 0 \<le> n \<and> n < 2 ^ 32)
          \<or> (tag = A_VAL16 \<and> - (2 ^ 15) \<le> n \<and> n < 2 ^ 15)
          \<or> (tag = A_UVAL16 \<and> 0 \<le> n \<and> n < 2 ^ 16)
          \<or> (tag = A_VAL8 \<and> - (2 ^ 7) \<le> n \<and> n < 2 ^ 7)
          \<or> (tag = A_UVAL8 \<and> 0 \<le> n \<and> n < 2 ^ 8)
      | PyFloat w \<Rightarrow> tag = A_DOUBLE
      | _ \<Rightarrow> False)"

text \<open>
  The count one round of the loop of \<^verbatim>\<open>executemany\<close> reports when it completes:
  \<^verbatim>\<open>ads_num_rows\<close> for a result set, \<^verbatim>\<open>ads_affected_rows\<close> otherwise; \<open>None\<close> when
  binding, executing or describing the columns raises.
\<close>

definition round_count :: "interp \<Rightarrow> charset \<Rightarrow> int \<Rightarrow> py_value list \<times> native_exec \<Rightarrow> int option" where
  "round_count L cs bind_count x =
     (case bind_all L cs (nx_describe (snd x)) 0 (py_take bind_count (fst x)) of
        Inl e \<Rightarrow> None
      | Inr parms \<Rightarrow>
          if \<not> nx_execute (snd x) then None
          else (case map_err (column L) (nx_columns (snd x)) of
                  Inl e \<Rightarrow> None
                | Inr cols \<Rightarrow>
                    Some (if cols = [] then nx_affected_rows (snd x) else nx_num_rows (snd x))))"

text \<open>A round without parameters and without result set that affects the given number of rows.\<close>

definition dml_round :: "int \<Rightarrow> py_value list \<times> native_exec" where
  "dml_round affected =
     ([], \<lparr>nx_describe = (\<lambda>k. described DD_INPUT A_INVALID_TYPE), nx_execute = True,
           nx_columns = [], nx_num_rows = 0, nx_affected_rows = affected\<rparr>)"

section \<open>Basic facts\<close>

lemmas A_codes =
  A_INVALID_TYPE_def A_BINARY_def A_STRING_def A_DOUBLE_def A_VAL64_def A_UVAL64_def
  A_VAL32_def A_UVAL32_def A_VAL16_def A_UVAL16_def A_VAL8_def A_UVAL8_def A_NCHAR_def
  A_DECIMAL_def A_DATE_def A_TIME_def A_TIMESTAMP_def

lemmas DT_codes =
  DT_NOTYPE_def DT_DATE_def DT_TIME_def DT_TIMESTAMP_def DT_VARCHAR_def DT_FIXCHAR_def
  DT_LONGVARCHAR_def DT_STRING_def DT_DOUBLE_def DT_FLOAT_def DT_DECIMAL_def DT_INT_def
  DT_SMALLINT_def DT_BINARY_def DT_LONGBINARY_def DT_TINYINT_def DT_BIGINT_def
  DT_UNSINT_def DT_UNSSMALLINT_def DT_UNSBIGINT_def DT_BIT_def DT_NSTRING_def
  DT_NFIXCHAR_def DT_NVARCHAR_def DT_LONGNVARCHAR_def

lemmas DD_codes = DD_INVALID_def DD_INPUT_def DD_OUTPUT_def DD_INPUT_OUTPUT_def

lemmas category_defs =
  STRING_def BINARY_def NUMBER_def DATE_def TIME_def TIMESTAMP_def DATETIME_def ROWID_def

lemma bind_err_simps [simp]:
  "bind_err (Inl e) f = Inl e"
  "bind_err (Inr x) f = f x"
  by (simp_all add: bind_err_def)

section \<open>Category equality\<close>

lemma py_eq_sym: "py_eq x (Category C) = py_eq (Category C) x"
  by (cases x) (auto simp: DBAPISet_eq_def)

text \<open>
  Claim C5. \<open>STRING\<close> equals the native codes \<open>A_STRING\<close> and \<open>A_NCHAR\<close> and differs
  from every member code \<open>n\<close> of \<open>NUMBER\<close>; a category \<open>C\<close> equals an operand \<open>x\<close>
  exactly when \<open>x\<close> is a native code in \<open>C\<close> or a category with the same members; the
  comparison gives the same answer with the operands swapped, and \<^verbatim>\<open>!=\<close> is its negation.
\<close>

theorem category_equality:
  "py_eq (Category STRING) (Native A_STRING)
   \<and> py_eq (Category STRING) (Native A_NCHAR)
   \<and> (n \<in> NUMBER \<longrightarrow> \<not> py_eq (Category STRING) (Native n) \<and> \<not> py_eq (Native n) (Category STRING))
   \<and> (py_eq (Category C) x \<longleftrightarrow>
        (case x of Native c \<Rightarrow> c \<in> C | Category s \<Rightarrow> s = C))
   \<and> (py_eq x (Category C) \<longleftrightarrow> py_eq (Category C) x)
   \<and> (py_ne (Category C) x \<longleftrightarrow> \<not> py_eq (Category C) x)
   \<and> (py_ne x (Category C) \<longleftrightarrow> \<not> py_eq x (Category C))"
proof -
  have members: "n \<in> NUMBER \<Longrightarrow> n \<notin> STRING"
    by (auto simp: NUMBER_def STRING_def A_codes)
  have eq_iff: "py_eq (Category C) x \<longleftrightarrow> (case x of Native c \<Rightarrow> c \<in> C | Category s \<Rightarrow> s = C)"
    by (cases x) (auto simp: DBAPISet_eq_def)
  have ne1: "py_ne (Category C) x \<longleftrightarrow> \<not> py_eq (Category C) x"
    by (simp add: DBAPISet_ne_def)
  have ne2: "py_ne x (Category C) \<longleftrightarrow> \<not> py_eq x (Category C)"
    by (cases x) (simp_all add: DBAPISet_ne_def)
  show ?thesis
    using members eq_iff ne1 ne2 py_eq_sym [of x C]
    by (simp add: DBAPISet_eq_def STRING_def)
qed

theorem category_equality_witness:
  "A_VAL32 \<in> NUMBER
   \<and> \<not> py_eq (Category STRING) (Native A_VAL32)
   \<and> \<not> py_eq (Native A_VAL32) (Category STRING)
   \<and> py_eq (Category STRING) (Category {A_NCHAR, A_STRING})
   \<and> py_eq (Native A_NCHAR) (Category STRING)
   \<and> \<not> py_ne (Native A_NCHAR) (Category STRING)"
proof -
  have mem: "A_VAL32 \<in> NUMBER"
    by (simp add: NUMBER_def)
  have same: "{A_NCHAR, A_STRING} = STRING"
    by (auto simp: STRING_def)
  show ?thesis
    using mem same
      category_equality [of A_VAL32 STRING "Category {A_NCHAR, A_STRING}"]
      category_equality [of A_VAL32 STRING "Native A_NCHAR"]
    by (simp add: STRING_def)
qed

section \<open>Null propagation\<close>

text \<open>
  Claim C1. A buffer whose null indicator is set decodes to \<open>None\<close>, whatever its
  type tag \<open>T\<close>, its bytes \<open>B\<close> and its length \<open>n\<close> are: the first test of
  \<^verbatim>\<open>valueof\<close> reads the indicator and nothing else.
\<close>

theorem valueof_null:
  assumes "dv_is_null data \<noteq> 0"
  shows "valueof L raw char_set (data\<lparr>dv_type := T, dv_buffer := B, dv_length := n\<rparr>) = Inr PyNone"
  using assms by (simp add: valueof_def)

text \<open>The theorem at a 32-bit integer buffer of four bytes \<open>0xFF\<close> marked null.\<close>

theorem valueof_null_witness:
  "\<forall>L raw char_set.
     valueof L raw char_set
       \<lparr>dv_buffer = (\<lambda>i. 255), dv_buffer_size = 4, dv_length = 4, dv_type = A_VAL32,
        dv_is_null = 1\<rparr> = Inr PyNone"
proof (intro allI)
  fix L raw char_set
  let ?d = "\<lparr>dv_buffer = (\<lambda>i. 0), dv_buffer_size = 4, dv_length = 0, dv_type = 0,
             dv_is_null = 1\<rparr>"
  have "dv_is_null ?d \<noteq> 0" by simp
  from valueof_null [OF this, where L = L and raw = raw and char_set = char_set
      and T = A_VAL32 and B = "\<lambda>i. 255" and n = 4]
  show "valueof L raw char_set
       \<lparr>dv_buffer = (\<lambda>i. 255), dv_buffer_size = 4, dv_length = 4, dv_type = A_VAL32,
        dv_is_null = 1\<rparr> = Inr PyNone"
    by simp
qed

section \<open>Byte layout of the numeric formats\<close>

lemma length_ptr_slice [simp]: "length (ptr_slice p n) = n"
  by (simp add: ptr_slice_def)

lemma length_le_bytes: "length (le_bytes w x) = w"
  by (induction w arbitrary: x) simp_all

lemma le_nat_le_bytes: "le_nat (le_bytes w x) = x mod 256 ^ w"
proof (induction w arbitrary: x)
  case 0
  show ?case by simp
next
  case (Suc w)
  have b: "unat (of_nat (x mod 256) :: byte) = x mod 256"
    by (simp add: unat_of_nat)
  have split: "x mod (256 * 256 ^ w) = 256 * (x div 256 mod 256 ^ w) + x mod 256"
    by (rule mod_mult2_eq)
  have "le_nat (le_bytes (Suc w) x) = x mod 256 + 256 * le_nat (le_bytes w (x div 256))"
    using b by simp
  also have "\<dots> = x mod 256 + 256 * (x div 256 mod 256 ^ w)"
    by (simp only: Suc)
  also have "\<dots> = x mod 256 ^ Suc w"
    by (simp add: split)
  finally show ?case .
qed

lemma ptr_slice_buffer:
  "ptr_slice (\<lambda>i. if i < length bs then bs ! i else 0) (length bs) = bs"
proof -
  have "map (\<lambda>i. if i < length bs then bs ! i else 0) [0..<length bs] = map ((!) bs) [0..<length bs]"
    by (rule map_cong) simp_all
  then show ?thesis
    by (simp add: ptr_slice_def map_nth)
qed

lemma create_string_buffer_bytes:
  "create_string_buffer (PyBytes bs) = Inr (\<lambda>i. if i < length bs then bs ! i else 0)"
  by (simp add: create_string_buffer_def)

lemma unpack_pack_int:
  assumes "pack_int w sg v = Inr bs" and "0 < w"
  shows "unpack_int w sg bs = v"
proof (cases sg)
  case True
  with assms have rng: "- (2 ^ (8 * w - 1)) \<le> v" "v < 2 ^ (8 * w - 1)"
    and bs: "bs = le_bytes w (nat (v mod 2 ^ (8 * w)))"
    by (auto simp: pack_int_def split: if_splits)
  have pw: "(256::nat) ^ w = 2 ^ (8 * w)"
    by (simp add: power_mult)
  have half: "(2::int) ^ (8 * w) = 2 * 2 ^ (8 * w - 1)"
    using assms(2) by (metis One_nat_def Suc_pred mult_pos_pos power_Suc zero_less_numeral)
  have lt: "nat (v mod 2 ^ (8 * w)) < 2 ^ (8 * w)"
    by (metis nat_less_numeral_power_cancel_iff pos_mod_bound zero_less_numeral zero_less_power)
  have n: "le_nat bs = nat (v mod 2 ^ (8 * w))"
    using lt by (simp add: bs le_nat_le_bytes pw)
  show ?thesis
  proof (cases "0 \<le> v")
    case True
    then have "v mod 2 ^ (8 * w) = v"
      using rng half by simp
    then show ?thesis
      using True rng n \<open>sg\<close> by (simp add: unpack_int_def)
  next
    case False
    have "(v + 2 ^ (8 * w)) mod 2 ^ (8 * w) = v + 2 ^ (8 * w)"
      using False rng half by (intro mod_pos_pos_trivial) linarith+
    then have m: "v mod 2 ^ (8 * w) = v + 2 ^ (8 * w)"
      by simp
    then show ?thesis
      using False rng n \<open>sg\<close> half by (simp add: unpack_int_def)
  qed
next
  case False
  with assms have rng: "0 \<le> v" "v < 2 ^ (8 * w)" and bs: "bs = le_bytes w (nat v)"
    by (auto simp: pack_int_def split: if_splits)
  have pw: "(256::nat) ^ w = 2 ^ (8 * w)"
    by (simp add: power_mult)
  have "nat v < 2 ^ (8 * w)"
    using rng by (simp add: nat_less_iff)
  then have "le_nat bs = nat v"
    by (simp add: bs le_nat_le_bytes pw)
  then show ?thesis
    using False rng by (simp add: unpack_int_def)
qed

lemma format_numeric:
  "py_index format A_DOUBLE = Inr CHR ''d''"
  "py_index format A_VAL64 = Inr CHR ''q''"
  "py_index format A_UVAL64 = Inr CHR ''Q''"
  "py_index format A_VAL32 = Inr CHR ''i''"
  "py_index format A_UVAL32 = Inr CHR ''I''"
  "py_index format A_VAL16 = Inr CHR ''h''"
  "py_index format A_UVAL16 = Inr CHR ''H''"
  "py_index format A_VAL8 = Inr CHR ''b''"
  "py_index format A_UVAL8 = Inr CHR ''B''"
  by (simp_all add: py_index_def format_def A_codes)

lemma unpack_pack_double: "unpack CHR ''d'' (le_bytes 8 (unat (w :: 64 word))) = Inr [PyFloat w]"
proof -
  have "unat w < 2 ^ 64"
    using unsigned_less [of w, where ?'a = nat] by simp
  then have "unat w mod 256 ^ 8 = unat w"
    by simp
  then show ?thesis
    by (simp add: unpack_def calcsize_def length_le_bytes le_nat_le_bytes)
qed

lemma unpack_pack_fmt:
  assumes "int_format fmt = Some (w, sg)" and "0 < w" and "pack_int w sg n = Inr bs"
  shows "unpack fmt bs = Inr [PyInt n]"
proof -
  have len: "length bs = w"
    using assms(3) by (auto simp: pack_int_def length_le_bytes split: if_splits)
  have fmt: "fmt \<noteq> CHR ''x''" "fmt \<noteq> CHR ''d''"
    using assms(1) by (auto simp: int_format_def)
  show ?thesis
    using assms(1) len fmt unpack_pack_int [OF assms(3) assms(2)]
    by (simp add: unpack_def calcsize_def)
qed

lemma assign_numeric:
  assumes "dv_type (bp_value param) = tag" and "tag \<noteq> A_INVALID_TYPE"
    and "py_index format tag = Inr fmt" and "fmt \<noteq> CHR ''x''"
    and "v \<noteq> PyNone" and "pack L fmt v = Inr bs" and "calcsize fmt = Inr n"
  shows "assign L cs param v =
           Inr (param\<lparr>bp_value :=
             \<lparr>dv_buffer = (\<lambda>i. if i < length bs then bs ! i else 0), dv_buffer_size = n,
              dv_length = n, dv_type = tag, dv_is_null = 0\<rparr>\<rparr>)"
  using assms by (simp add: assign_def create_string_buffer_bytes)

lemma valueof_numeric:
  assumes "dv_is_null d = 0" and "dv_type d = tag" and "3 \<le> tag" and "tag \<le> 11"
    and "py_index format tag = Inr fmt" and "calcsize fmt = Inr n"
    and "unpack fmt (ptr_slice (dv_buffer d) n) = Inr [v]"
  shows "valueof L connection_raw cs d = Inr v"
  using assms by (simp add: valueof_def connection_raw_def A_codes py_index_def)


lemma roundtrip_via:
  assumes "dv_type (bp_value param) = tag" and "3 \<le> tag" and "tag \<le> 11"
    and "py_index format tag = Inr fmt" and "fmt \<noteq> CHR ''x''" and "v \<noteq> PyNone"
    and "pack L fmt v = Inr bs" and "calcsize fmt = Inr (length bs)"
    and "unpack fmt bs = Inr [v]"
  shows "\<exists>param'. assign L cs param v = Inr param'
           \<and> dv_type (bp_value param') = tag
           \<and> valueof L connection_raw cs' (bp_value param') = Inr v"
proof -
  let ?d = "\<lparr>dv_buffer = (\<lambda>i. if i < length bs then bs ! i else 0),
             dv_buffer_size = length bs, dv_length = length bs, dv_type = tag,
             dv_is_null = 0\<rparr>"
  have nz: "tag \<noteq> A_INVALID_TYPE"
    using assms(2) by (simp add: A_codes)
  have enc: "assign L cs param v = Inr (param\<lparr>bp_value := ?d\<rparr>)"
    by (rule assign_numeric [OF assms(1) nz assms(4) assms(5) assms(6) assms(7) assms(8)])
  have "unpack fmt (ptr_slice (dv_buffer ?d) (length bs)) = Inr [v]"
    using assms(9) by (simp add: ptr_slice_buffer)
  then have dec: "valueof L connection_raw cs' ?d = Inr v"
    using assms(2,3,4,8) by (intro valueof_numeric [where tag = tag and fmt = fmt]) simp_all
  show ?thesis
    using enc dec by simp
qed

lemma roundtrip_int:
  assumes "dv_type (bp_value param) = tag" and "3 \<le> tag" and "tag \<le> 11"
    and "py_index format tag = Inr fmt" and "int_format fmt = Some (w, sg)" and "0 < w"
    and "pack_int w sg n = Inr bs"
  shows "\<exists>param'. assign L cs param (PyInt n) = Inr param'
           \<and> dv_type (bp_value param') = tag
           \<and> valueof L connection_raw cs' (bp_value param') = Inr (PyInt n)"
proof -
  have fmt: "fmt \<noteq> CHR ''x''" "fmt \<noteq> CHR ''d''"
    using assms(5) by (auto simp: int_format_def)
  have len: "length bs = w"
    using assms(7) by (auto simp: pack_int_def length_le_bytes split: if_splits)
  have p: "pack L fmt (PyInt n) = Inr bs"
    using fmt assms(5,7) by (simp add: pack_def)
  have c: "calcsize fmt = Inr (length bs)"
    using fmt assms(5) len by (simp add: calcsize_def)
  have u: "unpack fmt bs = Inr [PyInt n]"
    by (rule unpack_pack_fmt [OF assms(5) assms(6) assms(7)])
  show ?thesis
    by (rule roundtrip_via [OF assms(1) assms(2) assms(3) assms(4) fmt(1) _ p c u]) simp
qed

lemma roundtrip_double:
  assumes "dv_type (bp_value param) = A_DOUBLE"
  shows "\<exists>param'. assign L cs param (PyFloat w) = Inr param'
           \<and> dv_type (bp_value param') = A_DOUBLE
           \<and> valueof L connection_raw cs' (bp_value param') = Inr (PyFloat w)"
proof -
  have p: "pack L CHR ''d'' (PyFloat w) = Inr (le_bytes 8 (unat w))"
    by (simp add: pack_def)
  have c: "calcsize CHR ''d'' = Inr (length (le_bytes 8 (unat w)))"
    by (simp add: calcsize_def length_le_bytes)
  show ?thesis
    by (rule roundtrip_via [OF assms _ _ format_numeric(1) _ _ p c unpack_pack_double])
       (simp_all add: A_codes)
qed

text \<open>
  Claim C2. For every fixed-width numeric tag and every value the tag can represent,
  \<^verbatim>\<open>assign\<close> succeeds on a parameter of that tag, keeps the tag, and \<^verbatim>\<open>valueof\<close> of
  the connection decodes the resulting buffer to the same value.
\<close>

theorem numeric_roundtrip:
  assumes "representable (dv_type (bp_value param)) v"
  shows "\<exists>param'. assign L cs param v = Inr param'
           \<and> dv_type (bp_value param') = dv_type (bp_value param)
           \<and> valueof L connection_raw cs' (bp_value param') = Inr v"
proof (cases v)
  case (PyInt n)
  let ?t = "dv_type (bp_value param)"
  from assms PyInt consider
      (q) "?t = A_VAL64" "- (2 ^ 63) \<le> n" "n < 2 ^ 63"
    | (Q) "?t = A_UVAL64" "0 \<le> n" "n < 2 ^ 64"
    | (i) "?t = A_VAL32" "- (2 ^ 31) \<le> n" "n < 2 ^ 31"
    | (I) "?t = A_UVAL32" "0 \<le> n" "n < 2 ^ 32"
    | (h) "?t = A_VAL16" "- (2 ^ 15) \<le> n" "n < 2 ^ 15"
    | (H) "?t = A_UVAL16" "0 \<le> n" "n < 2 ^ 16"
    | (b) "?t = A_VAL8" "- (2 ^ 7) \<le> n" "n < 2 ^ 7"
    | (B) "?t = A_UVAL8" "0 \<le> n" "n < 2 ^ 8"
    by (auto simp: representable_def)
  then show ?thesis
  proof cases
    case q
    have "pack_int 8 True n = Inr (le_bytes 8 (nat (n mod 2 ^ 64)))"
      using q by (simp add: pack_int_def)
    from roundtrip_int [OF q(1) _ _ format_numeric(2) _ _ this, of L cs cs']
    show ?thesis using q(1) PyInt by (simp add: int_format_def A_codes)
  next
    case Q
    have "pack_int 8 False n = Inr (le_bytes 8 (nat n))"
      using Q by (simp add: pack_int_def)
    from roundtrip_int [OF Q(1) _ _ format_numeric(3) _ _ this, of L cs cs']
    show ?thesis using Q(1) PyInt by (simp add: int_format_def A_codes)
  next
    case i
    have "pack_int 4 True n = Inr (le_bytes 4 (nat (n mod 2 ^ 32)))"
      using i by (simp add: pack_int_def)
    from roundtrip_int [OF i(1) _ _ format_numeric(4) _ _ this, of L cs cs']
    show ?thesis using i(1) PyInt by (simp add: int_format_def A_codes)
  next
    case I
    have "pack_int 4 False n = Inr (le_bytes 4 (nat n))"
      using I by (simp add: pack_int_def)
    from roundtrip_int [OF I(1) _ _ format_numeric(5) _ _ this, of L cs cs']
    show ?thesis using I(1) PyInt by (simp add: int_format_def A_codes)
  next
    case h
    have "pack_int 2 True n = Inr (le_bytes 2 (nat (n mod 2 ^ 16)))"
      using h by (simp add: pack_int_def)
    from roundtrip_int [OF h(1) _ _ format_numeric(6) _ _ this, of L cs cs']
    show ?thesis using h(1) PyInt by (simp add: int_format_def A_codes)
  next
    case H
    have "pack_int 2 False n = Inr (le_bytes 2 (nat n))"
      using H by (simp add: pack_int_def)
    from roundtrip_int [OF H(1) _ _ format_numeric(7) _ _ this, of L cs cs']
    show ?thesis using H(1) PyInt by (simp add: int_format_def A_codes)
  next
    case b
    have "pack_int 1 True n = Inr (le_bytes 1 (nat (n mod 2 ^ 8)))"
      using b by (simp add: pack_int_def)
    from roundtrip_int [OF b(1) _ _ format_numeric(8) _ _ this, of L cs cs']
    show ?thesis using b(1) PyInt by (simp add: int_format_def A_codes)
  next
    case B
    have "pack_int 1 False n = Inr (le_bytes 1 (nat n))"
      using B by (simp add: pack_int_def)
    from roundtrip_int [OF B(1) _ _ format_numeric(9) _ _ this, of L cs cs']
    show ?thesis using B(1) PyInt by (simp add: int_format_def A_codes)
  qed
next
  case (PyFloat w)
  with assms have "dv_type (bp_value param) = A_DOUBLE"
    by (simp add: representable_def)
  from roundtrip_double [OF this, of L cs w cs'] show ?thesis
    using PyFloat \<open>dv_type (bp_value param) = A_DOUBLE\<close> by simp
qed (use assms in \<open>simp_all add: representable_def\<close>)

text \<open>
  The theorem at boundary values: the least 32-bit signed value, the greatest 64-bit
  unsigned value, \<open>-1\<close> in 8 bits, \<open>0\<close> in 16 bits unsigned, and the double \<open>1.0\<close>.
\<close>

theorem numeric_roundtrip_witness:
  "\<forall>L cs cs'.
     representable A_VAL32 (PyInt (- 2147483648))
     \<and> (\<exists>p. assign L cs (described DD_INPUT A_VAL32) (PyInt (- 2147483648)) = Inr p
            \<and> valueof L connection_raw cs' (bp_value p) = Inr (PyInt (- 2147483648)))
     \<and> representable A_UVAL64 (PyInt 18446744073709551615)
     \<and> (\<exists>p. assign L cs (described DD_INPUT A_UVAL64) (PyInt 18446744073709551615) = Inr p
            \<and> valueof L connection_raw cs' (bp_value p) = Inr (PyInt 18446744073709551615))
     \<and> representable A_VAL8 (PyInt (- 1))
     \<and> (\<exists>p. assign L cs (described DD_OUTPUT A_VAL8) (PyInt (- 1)) = Inr p
            \<and> valueof L connection_raw cs' (bp_value p) = Inr (PyInt (- 1)))
     \<and> representable A_UVAL16 (PyInt 0)
     \<and> (\<exists>p. assign L cs (described DD_INPUT A_UVAL16) (PyInt 0) = Inr p
            \<and> valueof L connection_raw cs' (bp_value p) = Inr (PyInt 0))
     \<and> representable A_DOUBLE (PyFloat 0x3FF0000000000000)
     \<and> (\<exists>p. assign L cs (described DD_INPUT A_DOUBLE) (PyFloat 0x3FF0000000000000) = Inr p
            \<and> valueof L connection_raw cs' (bp_value p) = Inr (PyFloat 0x3FF0000000000000))"
proof (intro allI)
  fix L :: interp and cs cs' :: charset
  have t: "dv_type (bp_value (described d tag)) = tag" for d tag
    by (simp add: described_def)
  have r1: "representable A_VAL32 (PyInt (- 2147483648))"
    by (simp add: representable_def A_codes)
  have r2: "representable A_UVAL64 (PyInt 18446744073709551615)"
    by (simp add: representable_def A_codes)
  have r3: "representable A_VAL8 (PyInt (- 1))"
    by (simp add: representable_def A_codes)
  have r4: "representable A_UVAL16 (PyInt 0)"
    by (simp add: representable_def A_codes)
  have r5: "representable A_DOUBLE (PyFloat 0x3FF0000000000000)"
    by (simp add: representable_def)
  show "representable A_VAL32 (PyInt (- 2147483648))
     \<and> (\<exists>p. assign L cs (described DD_INPUT A_VAL32) (PyInt (- 2147483648)) = Inr p
            \<and> valueof L connection_raw cs' (bp_value p) = Inr (PyInt (- 2147483648)))
     \<and> representable A_UVAL64 (PyInt 18446744073709551615)
     \<and> (\<exists>p. assign L cs (described DD_INPUT A_UVAL64) (PyInt 18446744073709551615) = Inr p
            \<and> valueof L connection_raw cs' (bp_value p) = Inr (PyInt 18446744073709551615))
     \<and> representable A_VAL8 (PyInt (- 1))
     \<and> (\<exists>p. assign L cs (described DD_OUTPUT A_VAL8) (PyInt (- 1)) = Inr p
            \<and> valueof L connection_raw cs' (bp_value p) = Inr (PyInt (- 1)))
     \<and> representable A_UVAL16 (PyInt 0)
     \<and> (\<exists>p. assign L cs (described DD_INPUT A_UVAL16) (PyInt 0) = Inr p
            \<and> valueof L connection_raw cs' (bp_value p) = Inr (PyInt 0))
     \<and> representable A_DOUBLE (PyFloat 0x3FF0000000000000)
     \<and> (\<exists>p. assign L cs (described DD_INPUT A_DOUBLE) (PyFloat 0x3FF0000000000000) = Inr p
            \<and> valueof L connection_raw cs' (bp_value p) = Inr (PyFloat 0x3FF0000000000000))"
    using r1 r2 r3 r4 r5
      numeric_roundtrip [of "described DD_INPUT A_VAL32" "PyInt (- 2147483648)" L cs cs']
      numeric_roundtrip [of "described DD_INPUT A_UVAL64" "PyInt 18446744073709551615" L cs cs']
      numeric_roundtrip [of "described DD_OUTPUT A_VAL8" "PyInt (- 1)" L cs cs']
      numeric_roundtrip [of "described DD_INPUT A_UVAL16" "PyInt 0" L cs cs']
      numeric_roundtrip [of "described DD_INPUT A_DOUBLE" "PyFloat 0x3FF0000000000000" L cs cs']
    unfolding t by blast
qed

section \<open>Row counts of a batch\<close>

lemma execute_one_count:
  assumes "stmt c = Live_stmt" and "round_count L cs bind_count x = Some r"
  shows "\<exists>c' parms. execute_one L cs rc bind_count c x = Inr (c', parms)
           \<and> rowcount c' = add_rowcount (rowcount c) r \<and> stmt c' = Live_stmt"
  using assms
  by (auto simp: round_count_def execute_one_def columns_def get_stmt_def
           split: sum.splits if_splits)

lemma exec_loop_rowcount:
  assumes "stmt c = Live_stmt" and "map (round_count L cs bind_count) seq = map Some counts"
  shows "\<exists>c' p. exec_loop L cs rc bind_count c parms seq = (c', Inr p)
           \<and> rowcount c' = foldl add_rowcount (rowcount c) counts"
  using assms
proof (induction seq arbitrary: c parms counts)
  case Nil
  then show ?case by simp
next
  case (Cons x seq)
  from Cons.prems(2) obtain r rs where counts: "counts = r # rs"
    and r: "round_count L cs bind_count x = Some r"
    and rs: "map (round_count L cs bind_count) seq = map Some rs"
    by (cases counts) auto
  from execute_one_count [OF Cons.prems(1) r, of rc] obtain c1 p1 where
    one: "execute_one L cs rc bind_count c x = Inr (c1, p1)"
    and rc1: "rowcount c1 = add_rowcount (rowcount c) r" and live: "stmt c1 = Live_stmt"
    by blast
  from Cons.IH [OF live rs, of "Some p1"] obtain c' p where
    "exec_loop L cs rc bind_count c1 (Some p1) seq = (c', Inr p)"
    "rowcount c' = foldl add_rowcount (rowcount c1) rs"
    by blast
  then show ?case
    using one rc1 counts by simp
qed

lemma foldl_add_rowcount:
  "foldl add_rowcount a rs =
     (if \<exists>r \<in> set rs. r < 0 then - 1 else if 0 \<le> a then a + sum_list rs else a)"
proof (induction rs arbitrary: a)
  case Nil
  show ?case by simp
next
  case (Cons r rs)
  have "foldl add_rowcount a (r # rs) = foldl add_rowcount (add_rowcount a r) rs"
    by simp
  also have "\<dots> =
      (if \<exists>r \<in> set rs. r < 0 then - 1
       else if 0 \<le> add_rowcount a r then add_rowcount a r + sum_list rs
       else add_rowcount a r)"
    by (rule Cons.IH)
  also have "\<dots> =
      (if \<exists>r \<in> set (r # rs). r < 0 then - 1
       else if 0 \<le> a then a + sum_list (r # rs) else a)"
    by (auto simp: add_rowcount_def)
  finally show ?case .
qed

text \<open>
  Claim C3. In a batch on an open connection whose statement prepares and whose rounds
  report the counts \<open>counts\<close>, the row count after the first \<open>k\<close> rounds is \<open>-1\<close> as
  soon as one of the counts so far is negative, and the sum of the counts so far
  otherwise. It starts at \<open>0\<close> (\<open>k = 0\<close>), and a later count that is not negative
  neither resets nor raises a \<open>-1\<close>.
\<close>

theorem executemany_rowcount:
  assumes "parent c = Some True" and "prepared"
    and "map (round_count L cs bind_count) seq = map Some counts"
  shows "rowcount (fst (executemany L cs c prepared bind_count rc (take k seq)))
           = (if \<exists>r \<in> set (take k counts). r < 0 then - 1 else sum_list (take k counts))"
proof -
  let ?c1 = "(free_statement c)\<lparr>stmt := Live_stmt\<rparr>"
  have con: "con (free_statement c) = Inr ()"
    using assms(1) by (simp add: con_def free_statement_def)
  have gs: "get_stmt ?c1 rc = Inr ()"
    by (simp add: get_stmt_def)
  have m: "map (round_count L cs bind_count) (take k seq) = map Some (take k counts)"
    using assms(3) by (simp add: take_map [symmetric])
  have "stmt (?c1\<lparr>rowcount := 0\<rparr>) = Live_stmt" by simp
  from exec_loop_rowcount [OF this m, of rc None] obtain c' p where
    loop: "exec_loop L cs rc bind_count (?c1\<lparr>rowcount := 0\<rparr>) None (take k seq) = (c', Inr p)"
    and rc: "rowcount c' = foldl add_rowcount 0 (take k counts)"
    by auto
  have "rowcount (fst (executemany L cs c prepared bind_count rc (take k seq))) = rowcount c'"
    using con gs loop assms(2) by (cases p) (simp_all add: executemany_def)
  then show ?thesis
    by (simp add: rc foldl_add_rowcount)
qed

text \<open>
  The theorem at the batch of three rounds reporting 2, -1 and 3: the row count is 2
  after the first round and -1 after the second and the third.
\<close>

theorem executemany_rowcount_witness:
  "\<forall>L cs rc.
     map (round_count L cs 0) [dml_round 2, dml_round (- 1), dml_round 3] = map Some [2, - 1, 3]
     \<and> rowcount (fst (executemany L cs new_cursor True 0 rc [dml_round 2])) = 2
     \<and> rowcount (fst (executemany L cs new_cursor True 0 rc [dml_round 2, dml_round (- 1)])) = - 1
     \<and> rowcount (fst (executemany L cs new_cursor True 0 rc
          [dml_round 2, dml_round (- 1), dml_round 3])) = - 1"
proof (intro allI)
  fix L cs rc
  have p: "parent new_cursor = Some True"
    by (simp add: new_cursor_def)
  have m: "map (round_count L cs 0) [dml_round 2, dml_round (- 1), dml_round 3] = map Some [2, - 1, 3]"
    by (simp add: round_count_def dml_round_def py_take_def)
  show "map (round_count L cs 0) [dml_round 2, dml_round (- 1), dml_round 3] = map Some [2, - 1, 3]
     \<and> rowcount (fst (executemany L cs new_cursor True 0 rc [dml_round 2])) = 2
     \<and> rowcount (fst (executemany L cs new_cursor True 0 rc [dml_round 2, dml_round (- 1)])) = - 1
     \<and> rowcount (fst (executemany L cs new_cursor True 0 rc
          [dml_round 2, dml_round (- 1), dml_round 3])) = - 1"
    using m executemany_rowcount [OF p TrueI m, of rc 1]
      executemany_rowcount [OF p TrueI m, of rc 2]
      executemany_rowcount [OF p TrueI m, of rc 3]
    by simp
qed

section \<open>A batch without parameter sets\<close>

text \<open>
  Claim C10. \<^verbatim>\<open>executemany\<close> with an empty sequence never returns normally. When the
  connection is open and the statement prepares, the loop body never runs, the
  \<^verbatim>\<open>return\<close> reads the unbound local \<^verbatim>\<open>parms\<close>, and the exception is an
  \<^verbatim>\<open>UnboundLocalError\<close>: a \<^verbatim>\<open>NameError\<close>, none of the module's errors, raised outside the
  \<^verbatim>\<open>try\<close> block, so that the row count stays 0.
\<close>

theorem executemany_empty:
  "(\<exists>e. snd (executemany L cs c prepared bind_count rc []) = Inl e)
   \<and> (parent c = Some True \<and> prepared \<longrightarrow>
        snd (executemany L cs c prepared bind_count rc []) = Inl UnboundLocalError
        \<and> is_NameError UnboundLocalError \<and> \<not> is_dbapi_error UnboundLocalError
        \<and> rowcount (fst (executemany L cs c prepared bind_count rc [])) = 0)"
  by (auto simp: executemany_def con_def get_stmt_def free_statement_def Let_def
           split: option.splits sum.splits stmt_handle.splits)

text \<open>The theorem at a new cursor: the whole result of the call.\<close>

theorem executemany_empty_witness:
  "\<forall>L cs rc.
     parent new_cursor = Some True
     \<and> executemany L cs new_cursor True 0 rc []
         = (new_cursor\<lparr>stmt := Live_stmt, rowcount := 0\<rparr>, Inl UnboundLocalError)"
proof (intro allI)
  fix L cs rc
  have p: "parent new_cursor = Some True"
    by (simp add: new_cursor_def)
  have "fst (executemany L cs new_cursor True 0 rc []) = new_cursor\<lparr>stmt := Live_stmt, rowcount := 0\<rparr>"
    by (simp add: executemany_def con_def get_stmt_def free_statement_def new_cursor_def)
  then show "parent new_cursor = Some True
     \<and> executemany L cs new_cursor True 0 rc []
         = (new_cursor\<lparr>stmt := Live_stmt, rowcount := 0\<rparr>, Inl UnboundLocalError)"
    using p executemany_empty [of L cs new_cursor True 0 rc]
    by (simp add: prod_eq_iff)
qed

section \<open>Fetching without a result set\<close>




section \<open>Tags outside the decode rules\<close>

text \<open>
  Claim C8, as the code has it. A buffer that is not null and whose tag is
  \<open>A_INVALID_TYPE\<close> or greater than \<open>A_TIMESTAMP\<close> (and not declared raw) makes
  \<^verbatim>\<open>valueof\<close> raise \<^verbatim>\<open>IndexError\<close>: the tag 0 selects the pad format, whose unpacked
  tuple is empty, and a tag above 16 lies beyond the end of \<open>format\<close>. The module
  raises \<^verbatim>\<open>DataError\<close> nowhere.
\<close>

theorem valueof_unknown_tag:
  assumes "dv_is_null data = 0" and "dv_type data \<notin> set raw"
    and "dv_type data = A_INVALID_TYPE \<or> A_TIMESTAMP < dv_type data"
  shows "valueof L raw char_set data = Inl IndexError"
proof -
  from assms(3) show ?thesis
  proof
    assume "dv_type data = A_INVALID_TYPE"
    then show ?thesis
      using assms(1,2)
      by (simp add: valueof_def A_codes py_index_def format_def calcsize_def unpack_def)
  next
    assume "A_TIMESTAMP < dv_type data"
    then show ?thesis
      using assms(1,2)
      by (simp add: valueof_def A_codes py_index_def format_def)
  qed
qed

text \<open>The theorem at the tags 0 and 17, for the connection's decoder.\<close>

theorem valueof_unknown_tag_witness:
  "\<forall>L char_set.
     valueof L connection_raw char_set
       \<lparr>dv_buffer = (\<lambda>i. 7), dv_buffer_size = 4, dv_length = 4, dv_type = A_INVALID_TYPE,
        dv_is_null = 0\<rparr> = Inl IndexError
   \<and> valueof L connection_raw char_set
       \<lparr>dv_buffer = (\<lambda>i. 7), dv_buffer_size = 4, dv_length = 4, dv_type = 17,
        dv_is_null = 0\<rparr> = Inl IndexError"
proof (intro allI)
  fix L :: interp and char_set :: charset
  let ?d0 = "\<lparr>dv_buffer = (\<lambda>i. 7), dv_buffer_size = 4, dv_length = 4,
              dv_type = A_INVALID_TYPE, dv_is_null = 0\<rparr>"
  let ?d17 = "\<lparr>dv_buffer = (\<lambda>i. 7), dv_buffer_size = 4, dv_length = 4,
               dv_type = 17, dv_is_null = 0\<rparr>"
  have a: "dv_is_null ?d0 = 0" "dv_type ?d0 \<notin> set connection_raw"
    "dv_type ?d0 = A_INVALID_TYPE \<or> A_TIMESTAMP < dv_type ?d0"
    by (simp_all add: connection_raw_def A_codes)
  have b: "dv_is_null ?d17 = 0" "dv_type ?d17 \<notin> set connection_raw"
    "dv_type ?d17 = A_INVALID_TYPE \<or> A_TIMESTAMP < dv_type ?d17"
    by (simp_all add: connection_raw_def A_codes)
  show "valueof L connection_raw char_set ?d0 = Inl IndexError
    \<and> valueof L connection_raw char_set ?d17 = Inl IndexError"
    using valueof_unknown_tag [OF a, of L char_set] valueof_unknown_tag [OF b, of L char_set]
    by simp
qed

text \<open>
  Claim C8 as stated fails: the tag 17 is covered by no decode rule, the buffer is not
  null, and the exception is \<^verbatim>\<open>IndexError\<close>, not \<^verbatim>\<open>DataError\<close>.
\<close>

theorem valueof_unknown_tag_counterexample:
  "\<forall>L char_set.
     valueof L connection_raw char_set
       \<lparr>dv_buffer = (\<lambda>i. 0), dv_buffer_size = 8, dv_length = 8, dv_type = 17, dv_is_null = 0\<rparr>
       = Inl IndexError
   \<and> valueof L connection_raw char_set
       \<lparr>dv_buffer = (\<lambda>i. 0), dv_buffer_size = 8, dv_length = 8, dv_type = 17, dv_is_null = 0\<rparr>
       \<noteq> Inl DataError"
  by (simp add: valueof_def A_codes py_index_def format_def connection_raw_def)

section \<open>Wide-character columns\<close>

text \<open>
  Every column of a wide-character native type makes \<^verbatim>\<open>columns\<close> raise: line 541
  assigns the \<^verbatim>\<open>float\<close> quotient to an integer field.
\<close>

lemma column_wide_raises:
  assumes "ci_native_type info \<in> set wide_types"
  shows "column L info = Inl TypeError"
  using assms by (simp add: column_def set_int_field_def)

text \<open>
  Claim C4 asks for precision 10 and size 20 from a wide-character column of native
  precision 20 and size 40. The code, evaluated on that column, raises \<^verbatim>\<open>TypeError\<close>
  and yields no descriptor.
\<close>

theorem column_wide_example:
  "column L \<lparr>ci_name = ''c'', ci_type = A_NCHAR, ci_native_type = DT_NSTRING,
             ci_precision = 20, ci_scale = 0, ci_max_size = 40, ci_nullable = 1\<rparr> = Inl TypeError
   \<and> columns L (new_cursor\<lparr>stmt := Live_stmt\<rparr>) rc
         [\<lparr>ci_name = ''c'', ci_type = A_NCHAR, ci_native_type = DT_NSTRING,
           ci_precision = 20, ci_scale = 0, ci_max_size = 40, ci_nullable = 1\<rparr>] = Inl TypeError"
  by (simp add: column_wide_raises wide_types_def columns_def get_stmt_def)

section \<open>The time converter\<close>

lemma module_globals_datetime: "module_globals ''datetime'' = Some Class_datetime"
  by (simp add: module_globals_def module_imports_def)

lemma ads_typecast_time_raises:
  assumes "truthy s"
  shows "ads_typecast_time module_globals L s = Inl TypeError"
  using assms by (simp add: ads_typecast_time_def global_name_def module_globals_datetime)

text \<open>
  Claim C6 asks for hour 0 from \<^verbatim>\<open>12:00:00 AM\<close> and for 12:30:15.500000 from
  \<^verbatim>\<open>12:30:15.5 PM\<close>. The code, evaluated on these texts (as \<^verbatim>\<open>str\<close>, and as the
  \<^verbatim>\<open>bytes\<close> that \<^verbatim>\<open>valueof\<close> passes), raises \<^verbatim>\<open>TypeError\<close> at line 703, where
  \<^verbatim>\<open>datetime.time\<close> is a method of the class that line 18 bound to \<^verbatim>\<open>datetime\<close>.
\<close>

theorem ads_typecast_time_examples:
  "ads_typecast_time module_globals L (PyStr ''12:00:00 AM'') = Inl TypeError
   \<and> ads_typecast_time module_globals L (PyStr ''12:30:15.5 PM'') = Inl TypeError
   \<and> ads_typecast_time module_globals L (PyBytes (map (of_nat \<circ> of_char) ''12:00:00 AM'')) = Inl TypeError"
  by (simp add: ads_typecast_time_raises)

text \<open>
  With \<^verbatim>\<open>datetime\<close> bound to the module, as line 12 alone leaves it, the same
  statements give the values of the claim, for an interpreter that reads the numerals.
\<close>

lemma split_1: "split_ws ''12:00:00 AM'' = [''12:00:00'', ''AM'']"
  by (simp add: split_ws_def is_space_def)

lemma split_2: "split_ws ''12:30:15.5 PM'' = [''12:30:15.5'', ''PM'']"
  by (simp add: split_ws_def is_space_def)

lemma parse_time_intended:
  assumes "g ''datetime'' = Some Module_datetime"
    and "int_of L ''12'' = Inr 12" and "int_of L ''00'' = Inr 0"
    and "int_of L ''30'' = Inr 30" and "int_of L ''15'' = Inr 15"
    and "frac_micros L ''0'' = Inr 0" and "frac_micros L ''5'' = Inr 500000"
  shows "ads_typecast_time g L (PyStr ''12:00:00 AM'') = Inr (PyTime 0 0 0 0)"
    and "ads_typecast_time g L (PyStr ''12:30:15.5 PM'') = Inr (PyTime 12 30 15 500000)"
  using assms
  by (simp_all add: ads_typecast_time_def parse_time_def global_name_def split_1 split_2)

section \<open>Binding text\<close>

lemma str_cases:
  assumes "is_str v"
  obtains s where "v = PyStr s" | s where "v = PyBinary s"
  using assms by (cases v) simp_all

lemma assign_text_raises:
  assumes "is_str v" and "py_index format (dv_type (bp_value param)) = Inr CHR ''x''"
  shows "assign L cs param v = Inl TypeError"
proof -
  have f: "py_index format A_STRING = Inr CHR ''x''" "py_index format A_BINARY = Inr CHR ''x''"
    by (simp_all add: py_index_def format_def A_codes)
  from assms(1) show ?thesis
  proof (cases rule: str_cases)
    case (1 s)
    then show ?thesis
      using assms(2) f by (simp add: assign_def Let_def create_string_buffer_def)
  next
    case (2 s)
    then show ?thesis
      using assms(2) f by (simp add: assign_def Let_def create_string_buffer_def)
  qed
qed

text \<open>
  Claim C7 asks for UTF-16 and two extra bytes on the national-character path and for
  the exact byte length otherwise. The code, evaluated on the text \<^verbatim>\<open>ab\<close> for a
  parameter of type \<open>A_NCHAR\<close>, \<open>A_STRING\<close> or no type, raises \<^verbatim>\<open>TypeError\<close> at line
  276 and records no size: the first test of line 264 takes every \<^verbatim>\<open>str\<close>, the
  branch of lines 266-269 is never entered, and \<^verbatim>\<open>create_string_buffer\<close> refuses a
  \<^verbatim>\<open>str\<close>.
\<close>

theorem assign_text_nchar:
  "assign L cs (described DD_INPUT A_NCHAR) (PyStr ''ab'') = Inl TypeError
   \<and> assign L cs (described DD_INPUT A_STRING) (PyStr ''ab'') = Inl TypeError
   \<and> assign L cs (described DD_INPUT A_INVALID_TYPE) (PyStr ''ab'') = Inl TypeError"
  by (simp add: assign_text_raises described_def py_index_def format_def A_codes)

text \<open>No text value is ever bound, whatever the parameter.\<close>

lemma pack_text_raises:
  assumes "is_str v"
  shows "pack L fmt v = Inl StructError"
  using assms by (cases rule: str_cases) (simp_all add: pack_def split: option.splits)

lemma assign_text_never_succeeds:
  assumes "is_str v"
  shows "\<exists>e. assign L cs param v = Inl e"
proof -
  define t where "t = (if dv_type (bp_value param) = A_INVALID_TYPE
    then (if is_Binary v then A_BINARY else A_STRING) else dv_type (bp_value param))"
  have nn: "v \<noteq> PyNone" "\<not> is_int v" "\<not> is_float v"
    using assms by (cases rule: str_cases; simp)+
  have csb: "create_string_buffer v = Inl TypeError"
    using assms by (cases rule: str_cases) (simp_all add: create_string_buffer_def)
  have a: "assign L cs param v =
      bind_err (py_index format t) (\<lambda>fmt.
        if fmt = CHR ''x'' then Inl TypeError else Inl StructError)"
    using nn csb assms pack_text_raises [OF assms, of L]
    by (simp add: assign_def Let_def t_def cong: if_cong)
  show ?thesis
    by (cases "py_index format t") (simp_all add: a)
qed

end
